theory Spec2Isabelle
  imports Main
begin

section \<open>The attach-policy custom-resource handler\<close>

text \<open>
  The handler of \<^verbatim>\<open>src/unnamed/part_000\<close> talks to the Organizations service through
  three operations: the paginated listing \<^verbatim>\<open>paginateListPoliciesForTarget\<close>, and
  \<^verbatim>\<open>AttachPolicyCommand\<close> and \<^verbatim>\<open>DetachPolicyCommand\<close> sent through
  \<^verbatim>\<open>throttlingBackOff\<close>. Each of them may throw. The model makes the service's
  answers an explicit argument of the handler and returns, next to the handler's result,
  the log of the calls it issued with the outcome of each.
\<close>

subsection \<open>Data\<close>

text \<open>An exception thrown by an API call, identified by its name.\<close>

datatype error = ApiError string

text \<open>
  \<^verbatim>\<open>AWSLambda.CloudFormationCustomResourceEvent\<close>: a union discriminated by
  \<^verbatim>\<open>RequestType\<close>, which is one of three string literals. The resource properties are
  a string-keyed mapping; a key that is absent reads as \<^verbatim>\<open>undefined\<close>, here \<open>None\<close>.
  Create events carry no physical resource id.
\<close>

datatype request_type = Create | Update | Delete

record event =
  RequestType :: request_type
  ResourceProperties :: "string \<rightharpoonup> string"
  PhysicalResourceId :: "string option"

text \<open>The object the handler returns.\<close>

record response =
  PhysicalResourceId :: "string option"
  Status :: string

text \<open>
  One entry of a listed page (\<^verbatim>\<open>PolicySummary\<close>; the handler reads its \<^verbatim>\<open>Id\<close> only,
  which the service's schema declares optional) and one page of the listing, whose
  \<^verbatim>\<open>Policies\<close> may be absent.
\<close>

record PolicySummary =
  Id' :: "string option"

record page =
  Policies :: "PolicySummary list option"

text \<open>
  What the async iteration over \<^verbatim>\<open>paginateListPoliciesForTarget\<close> meets: the fetch of a
  page throws (\<open>Fail\<close>), or it yields a page that is the last one (\<open>Last\<close>), or it yields
  a page after which a further fetch follows (\<open>More\<close>). A page is fetched only when the
  loop body has finished with the page before it.
\<close>

datatype listing = Fail error | Last page | More page listing

text \<open>The calls the handler can issue, with the arguments it passes.\<close>

datatype command =
    ListPoliciesForTarget "string option" "string option"
  | AttachPolicy "string option" "string option"
  | DetachPolicy "string option" "string option"

text \<open>The log of one invocation: each call issued, in order, with \<open>None\<close> for success
  or the error it threw.\<close>

type_synonym trace = "(command \<times> error option) list"

text \<open>
  The Organizations service as one invocation sees it: the course of the listing, the
  outcome of the attach call, and the outcome of the detach calls, numbered from 0 in the
  order they are sent. A call wrapped in \<^verbatim>\<open>throttlingBackOff\<close> counts as one call, with
  the outcome that the wrapper hands back.
\<close>

record OrganizationsClient =
  paginateListPoliciesForTarget :: listing
  sendAttachPolicy :: "error option"
  sendDetachPolicy :: "nat \<Rightarrow> error option"

subsection \<open>The handler\<close>

text \<open>\<^verbatim>\<open>page.Policies ?? []\<close>\<close>

definition policies_of :: "page \<Rightarrow> PolicySummary list" where
  "policies_of pg = (case Policies pg of None \<Rightarrow> [] | Some ps \<Rightarrow> ps)"

text \<open>The inner loop of the Create/Update branch: is there an entry with
  \<^verbatim>\<open>policy.Id === policyId\<close>?\<close>

fun policy_in :: "string option \<Rightarrow> PolicySummary list \<Rightarrow> bool" where
  "policy_in policyId [] = False"
| "policy_in policyId (policy # rest) =
     (if Id' policy = policyId then True else policy_in policyId rest)"

text \<open>The outer loop of the Create/Update branch. It returns the calls issued and
  whether the policy was found, or the error of the fetch that threw.\<close>

fun find_attached :: "command \<Rightarrow> string option \<Rightarrow> listing \<Rightarrow> trace \<times> (error + bool)" where
  "find_attached c policyId (Fail e) = ([(c, Some e)], Inl e)"
| "find_attached c policyId (Last pg) = ([(c, None)], Inr (policy_in policyId (policies_of pg)))"
| "find_attached c policyId (More pg next) =
     (if policy_in policyId (policies_of pg) then ([(c, None)], Inr True)
      else (case find_attached c policyId next of (tr, r) \<Rightarrow> ((c, None) # tr, r)))"

text \<open>A template literal renders \<^verbatim>\<open>undefined\<close> as the word.\<close>

fun str :: "string option \<Rightarrow> string" where
  "str None = ''undefined''"
| "str (Some s) = s"

definition attached_result :: "string option \<Rightarrow> string option \<Rightarrow> response" where
  "attached_result policyId targetId =
     \<lparr>PhysicalResourceId = Some (str policyId @ ''_'' @ str targetId), Status = ''SUCCESS''\<rparr>"

definition create_or_update ::
  "OrganizationsClient \<Rightarrow> string option \<Rightarrow> string option \<Rightarrow> string option \<Rightarrow> trace \<times> (error + response)" where
  "create_or_update organizationsClient policyId targetId type =
     (case find_attached (ListPoliciesForTarget type targetId) policyId
             (paginateListPoliciesForTarget organizationsClient) of
        (tr, Inl e) \<Rightarrow> (tr, Inl e)
      | (tr, Inr True) \<Rightarrow> (tr, Inr (attached_result policyId targetId))
      | (tr, Inr False) \<Rightarrow>
          (case sendAttachPolicy organizationsClient of
             Some e \<Rightarrow> (tr @ [(AttachPolicy policyId targetId, Some e)], Inl e)
           | None \<Rightarrow> (tr @ [(AttachPolicy policyId targetId, None)],
                       Inr (attached_result policyId targetId))))"

text \<open>The inner loop of the Delete branch over one page: a detach call for every entry
  with \<^verbatim>\<open>policy.Id === policyId\<close>. \<open>k\<close> is the number of detach calls sent so far. It
  returns the calls issued, the new count and the error, if a call threw.\<close>

fun detach_matching ::
  "(nat \<Rightarrow> error option) \<Rightarrow> command \<Rightarrow> string option \<Rightarrow> nat \<Rightarrow> PolicySummary list
     \<Rightarrow> trace \<times> nat \<times> error option" where
  "detach_matching send d policyId k [] = ([], k, None)"
| "detach_matching send d policyId k (policy # rest) =
     (if Id' policy = policyId then
        (case send k of
           Some e \<Rightarrow> ([(d, Some e)], Suc k, Some e)
         | None \<Rightarrow> (case detach_matching send d policyId (Suc k) rest of
                      (tr, k', r) \<Rightarrow> ((d, None) # tr, k', r)))
      else detach_matching send d policyId k rest)"

text \<open>The outer loop of the Delete branch.\<close>

fun detach_listed ::
  "(nat \<Rightarrow> error option) \<Rightarrow> command \<Rightarrow> command \<Rightarrow> string option \<Rightarrow> nat \<Rightarrow> listing
     \<Rightarrow> trace \<times> error option" where
  "detach_listed send c d policyId k (Fail e) = ([(c, Some e)], Some e)"
| "detach_listed send c d policyId k (Last pg) =
     (case detach_matching send d policyId k (policies_of pg) of
        (tr, k', r) \<Rightarrow> ((c, None) # tr, r))"
| "detach_listed send c d policyId k (More pg next) =
     (case detach_matching send d policyId k (policies_of pg) of
        (tr, k', Some e) \<Rightarrow> ((c, None) # tr, Some e)
      | (tr, k', None) \<Rightarrow>
          (case detach_listed send c d policyId k' next of
             (tr', r) \<Rightarrow> ((c, None) # tr @ tr', r)))"

definition delete ::
  "OrganizationsClient \<Rightarrow> event \<Rightarrow> string option \<Rightarrow> string option \<Rightarrow> string option
     \<Rightarrow> trace \<times> (error + response)" where
  "delete organizationsClient ev policyId targetId type =
     (if policyId \<noteq> Some ''p-FullAWSAccess'' then
        (case detach_listed (sendDetachPolicy organizationsClient)
                (ListPoliciesForTarget type targetId) (DetachPolicy policyId targetId)
                policyId 0 (paginateListPoliciesForTarget organizationsClient) of
           (tr, Some e) \<Rightarrow> (tr, Inl e)
         | (tr, None) \<Rightarrow>
             (tr, Inr \<lparr>PhysicalResourceId = event.PhysicalResourceId ev, Status = ''SUCCESS''\<rparr>))
      else ([], Inr \<lparr>PhysicalResourceId = event.PhysicalResourceId ev, Status = ''SUCCESS''\<rparr>))"

definition handler :: "OrganizationsClient \<Rightarrow> event \<Rightarrow> trace \<times> (error + response)" where
  "handler organizationsClient ev =
     (let policyId = ResourceProperties ev ''policyId'';
          targetId = ResourceProperties ev ''targetId'';
          type = ResourceProperties ev ''type''
      in case RequestType ev of
           Create \<Rightarrow> create_or_update organizationsClient policyId targetId type
         | Update \<Rightarrow> create_or_update organizationsClient policyId targetId type
         | Delete \<Rightarrow> delete organizationsClient ev policyId targetId type)"

subsection \<open>Reading a listing and a log\<close>

text \<open>The pages a listing yields before it ends or a fetch throws, whether no fetch
  throws, and the ids of all entries of those pages, in order.\<close>

fun pages :: "listing \<Rightarrow> page list" where
  "pages (Fail e) = []"
| "pages (Last pg) = [pg]"
| "pages (More pg next) = pg # pages next"

fun complete :: "listing \<Rightarrow> bool" where
  "complete (Fail e) = False"
| "complete (Last pg) = True"
| "complete (More pg next) = complete next"

definition page_ids :: "page \<Rightarrow> string option list" where
  "page_ids pg = map Id' (policies_of pg)"

definition listed_ids :: "listing \<Rightarrow> string option list" where
  "listed_ids l = concat (map page_ids (pages l))"

fun is_list :: "command \<Rightarrow> bool" where
  "is_list (ListPoliciesForTarget f t) = True"
| "is_list c = False"

fun is_attach :: "command \<Rightarrow> bool" where
  "is_attach (AttachPolicy p t) = True"
| "is_attach c = False"

fun is_detach :: "command \<Rightarrow> bool" where
  "is_detach (DetachPolicy p t) = True"
| "is_detach c = False"

text \<open>The calls of a log by kind, and the mutations that took effect: the attach and
  detach calls that did not throw.\<close>

definition attach_calls :: "trace \<Rightarrow> command list" where
  "attach_calls tr = filter is_attach (map fst tr)"

definition detach_calls :: "trace \<Rightarrow> command list" where
  "detach_calls tr = filter is_detach (map fst tr)"

definition applied :: "trace \<Rightarrow> command list" where
  "applied tr = map fst (filter (\<lambda>x. \<not> is_list (fst x) \<and> snd x = None) tr)"

text \<open>The attach and detach calls issued, whatever their outcome.\<close>

definition mutation_calls :: "trace \<Rightarrow> command list" where
  "mutation_calls tr = filter (\<lambda>c. \<not> is_list c) (map fst tr)"

text \<open>
  The part of a log after the moment a match is found. The page fetched by the list call
  number \<open>n\<close> (from 0) is page \<open>n\<close> of the listing, and the loop body for a page runs right
  after its fetch, so what follows the match on the first matching page lies in what
  follows that page's list call.
\<close>

fun after_fetch :: "nat \<Rightarrow> trace \<Rightarrow> trace" where
  "after_fetch n [] = []"
| "after_fetch n ((c, r) # tr) =
     (if is_list c then (case n of 0 \<Rightarrow> tr | Suc m \<Rightarrow> after_fetch m tr)
      else after_fetch n tr)"

definition first_match :: "string option \<Rightarrow> listing \<Rightarrow> nat" where
  "first_match policyId l = length (takeWhile (\<lambda>pg. policyId \<notin> set (page_ids pg)) (pages l))"

definition after_match :: "string option \<Rightarrow> listing \<Rightarrow> trace \<Rightarrow> trace" where
  "after_match policyId l tr = after_fetch (first_match policyId l) tr"

text \<open>The errors thrown by the calls of a log.\<close>

definition thrown :: "trace \<Rightarrow> error list" where
  "thrown tr = concat (map (\<lambda>x. case snd x of None \<Rightarrow> [] | Some e \<Rightarrow> [e]) tr)"

section \<open>The construct wrappers\<close>

text \<open>
  The constructors of \<^verbatim>\<open>Policy\<close> (\<^verbatim>\<open>aws-organizations/policy.ts\<close>) and \<^verbatim>\<open>MacieMembers\<close>
  (\<^verbatim>\<open>aws-macie/macie-members.ts\<close>) end in \<^verbatim>\<open>new cdk.CustomResource(this, 'Resource', ...)\<close>.
  The model returns the argument of that registration. What the constructor obtains from
  libraries is an argument of the model: the bundled asset, the provider's service token
  and the value that the call \<^verbatim>\<open>uuidv4()\<close> returned.
\<close>

datatype PolicyType =
  AISERVICES_OPT_OUT_POLICY | BACKUP_POLICY | SERVICE_CONTROL_POLICY | TAG_POLICY

text \<open>The string value of each member of the enum.\<close>

fun PolicyType_value :: "PolicyType \<Rightarrow> string" where
  "PolicyType_value AISERVICES_OPT_OUT_POLICY = ''AISERVICES_OPT_OUT_POLICY''"
| "PolicyType_value BACKUP_POLICY = ''BACKUP_POLICY''"
| "PolicyType_value SERVICE_CONTROL_POLICY = ''SERVICE_CONTROL_POLICY''"
| "PolicyType_value TAG_POLICY = ''TAG_POLICY''"

record Tag =
  Key :: "string option"
  Value :: "string option"

text \<open>A value in the properties of a custom resource: a string or a list of tags.\<close>

datatype property = StringValue string | TagsValue "Tag list"

text \<open>
  An object passed as \<^verbatim>\<open>PolicyProps\<close>. The interface declares five fields, two of them
  optional. It is structural: an object that has them is accepted whatever else it
  carries, so \<open>other\<close> holds the object's own properties beyond the five declared.
\<close>

record PolicyProps =
  path :: string
  name :: string
  description :: "string option"
  type :: PolicyType
  tags :: "Tag list option"
  other :: "string \<rightharpoonup> property"

record AwsMacieMembersProps =
  region :: string
  adminAccountId :: string

record Asset =
  s3BucketName :: string
  s3ObjectKey :: string

record CustomResourceProps =
  resourceType :: string
  serviceToken :: string
  properties :: "string \<rightharpoonup> property"

text \<open>The own properties of a \<^verbatim>\<open>PolicyProps\<close> object, by key: the declared fields that
  are present, and the others.\<close>

definition declared_PolicyProps :: "PolicyProps \<Rightarrow> (string \<rightharpoonup> property)" where
  "declared_PolicyProps props =
     (let m1 = [''path'' \<mapsto> StringValue (path props), ''name'' \<mapsto> StringValue (name props)];
          m2 = (case description props of None \<Rightarrow> m1
                | Some d \<Rightarrow> m1(''description'' \<mapsto> StringValue d));
          m3 = m2(''type'' \<mapsto> StringValue (PolicyType_value (type props)))
      in case tags props of None \<Rightarrow> m3 | Some ts \<Rightarrow> m3(''tags'' \<mapsto> TagsValue ts))"

definition own_properties :: "PolicyProps \<Rightarrow> (string \<rightharpoonup> property)" where
  "own_properties props = other props ++ declared_PolicyProps props"

text \<open>\<^verbatim>\<open>...props\<close> at the end of an object literal: every own property of \<^verbatim>\<open>props\<close> is
  written over what the literal holds under that key so far.\<close>

definition spread_PolicyProps ::
  "PolicyProps \<Rightarrow> (string \<rightharpoonup> property) \<Rightarrow> (string \<rightharpoonup> property)" where
  "spread_PolicyProps props m = m ++ own_properties props"

text \<open>\<^verbatim>\<open>properties: { bucket: ..., key: ..., uuid: uuidv4(), ...props }\<close>\<close>

definition Policy :: "Asset \<Rightarrow> string \<Rightarrow> string \<Rightarrow> PolicyProps \<Rightarrow> CustomResourceProps" where
  "Policy asset createPolicyFunction_serviceToken uuid props =
     \<lparr>resourceType = ''Custom::CreatePolicy'',
      serviceToken = createPolicyFunction_serviceToken,
      properties = spread_PolicyProps props
         [''bucket'' \<mapsto> StringValue (s3BucketName asset),
          ''key'' \<mapsto> StringValue (s3ObjectKey asset),
          ''uuid'' \<mapsto> StringValue uuid]\<rparr>"

text \<open>\<^verbatim>\<open>properties: { region: props.region, adminAccountId: props.adminAccountId,
  uuid: uuidv4() }\<close>: no spread, the two fields are read one by one.\<close>

definition MacieMembers :: "string \<Rightarrow> string \<Rightarrow> AwsMacieMembersProps \<Rightarrow> CustomResourceProps" where
  "MacieMembers addMembersFunction_serviceToken uuid props =
     \<lparr>resourceType = ''Custom::MacieCreateMember'',
      serviceToken = addMembersFunction_serviceToken,
      properties =
         [''region'' \<mapsto> StringValue (region props),
          ''adminAccountId'' \<mapsto> StringValue (adminAccountId props),
          ''uuid'' \<mapsto> StringValue uuid]\<rparr>"

section \<open>Example inputs\<close>

text \<open>The events and service answers at which the theorems below are instantiated.\<close>

definition summary :: "string \<Rightarrow> PolicySummary" where
  "summary i = \<lparr>Id' = Some i\<rparr>"

definition scp_properties :: "string \<rightharpoonup> string" where
  "scp_properties =
     [''policyId'' \<mapsto> ''p-1234'', ''targetId'' \<mapsto> ''ou-5678'',
      ''type'' \<mapsto> ''SERVICE_CONTROL_POLICY'']"

definition full_access_properties :: "string \<rightharpoonup> string" where
  "full_access_properties =
     [''policyId'' \<mapsto> ''p-FullAWSAccess'', ''targetId'' \<mapsto> ''ou-5678'',
      ''type'' \<mapsto> ''SERVICE_CONTROL_POLICY'']"

definition create_event :: event where
  "create_event =
     \<lparr>RequestType = Create, ResourceProperties = scp_properties, PhysicalResourceId = None\<rparr>"

definition update_event :: event where
  "update_event =
     \<lparr>RequestType = Update, ResourceProperties = scp_properties,
      PhysicalResourceId = Some ''p-1234_ou-5678''\<rparr>"

definition delete_event :: event where
  "delete_event =
     \<lparr>RequestType = Delete, ResourceProperties = scp_properties,
      PhysicalResourceId = Some ''p-1234_ou-5678''\<rparr>"

definition delete_full_access_event :: event where
  "delete_full_access_event =
     \<lparr>RequestType = Delete, ResourceProperties = full_access_properties,
      PhysicalResourceId = Some ''p-FullAWSAccess_ou-5678''\<rparr>"

text \<open>A target that has only the default policy attached, on two pages; every call
  succeeds.\<close>

definition unattached_client :: OrganizationsClient where
  "unattached_client =
     \<lparr>paginateListPoliciesForTarget =
        More \<lparr>Policies = Some [summary ''p-FullAWSAccess'']\<rparr> (Last \<lparr>Policies = None\<rparr>),
      sendAttachPolicy = None,
      sendDetachPolicy = (\<lambda>k. None)\<rparr>"

text \<open>The same target once \<^verbatim>\<open>p-1234\<close> is attached: the first of two pages lists it.\<close>

definition attached_client :: OrganizationsClient where
  "attached_client =
     \<lparr>paginateListPoliciesForTarget =
        More \<lparr>Policies = Some [summary ''p-FullAWSAccess'', summary ''p-1234'']\<rparr>
          (Last \<lparr>Policies = None\<rparr>),
      sendAttachPolicy = None,
      sendDetachPolicy = (\<lambda>k. None)\<rparr>"

text \<open>A listing that shows \<^verbatim>\<open>p-1234\<close> on two pages; every call succeeds.\<close>

definition listed_twice_client :: OrganizationsClient where
  "listed_twice_client =
     \<lparr>paginateListPoliciesForTarget =
        More \<lparr>Policies = Some [summary ''p-1234'']\<rparr>
          (Last \<lparr>Policies = Some [summary ''p-FullAWSAccess'', summary ''p-1234'']\<rparr>),
      sendAttachPolicy = None,
      sendDetachPolicy = (\<lambda>k. None)\<rparr>"

text \<open>The first page lists \<^verbatim>\<open>p-1234\<close> and the detach call succeeds; the fetch of the
  second page throws.\<close>

definition second_page_fails_client :: OrganizationsClient where
  "second_page_fails_client =
     \<lparr>paginateListPoliciesForTarget =
        More \<lparr>Policies = Some [summary ''p-1234'']\<rparr> (Fail (ApiError ''TooManyRequestsException'')),
      sendAttachPolicy = None,
      sendDetachPolicy = (\<lambda>k. None)\<rparr>"

text \<open>Nothing but the default policy is listed, and the attach call throws.\<close>

definition attach_fails_client :: OrganizationsClient where
  "attach_fails_client =
     \<lparr>paginateListPoliciesForTarget = Last \<lparr>Policies = Some [summary ''p-FullAWSAccess'']\<rparr>,
      sendAttachPolicy = Some (ApiError ''PolicyNotFoundException''),
      sendDetachPolicy = (\<lambda>k. None)\<rparr>"

definition example_asset :: Asset where
  "example_asset = \<lparr>s3BucketName = ''cdk-assets'', s3ObjectKey = ''0a1b.json''\<rparr>"

definition example_PolicyProps :: PolicyProps where
  "example_PolicyProps =
     \<lparr>path = ''policies/guardrails.json'', name = ''guardrails'', description = None,
      type = SERVICE_CONTROL_POLICY, tags = None, other = Map.empty\<rparr>"

text \<open>The same props in an object that also carries a property \<^verbatim>\<open>uuid\<close>, as an entry
  read from a configuration file may.\<close>

definition pinned_PolicyProps :: PolicyProps where
  "pinned_PolicyProps =
     \<lparr>path = ''policies/guardrails.json'', name = ''guardrails'', description = None,
      type = SERVICE_CONTROL_POLICY, tags = None,
      other = [''uuid'' \<mapsto> StringValue ''pinned-by-caller'']\<rparr>"

definition example_MacieProps :: AwsMacieMembersProps where
  "example_MacieProps = \<lparr>region = ''us-east-1'', adminAccountId = ''111122223333''\<rparr>"

section \<open>Properties of the loops\<close>

text \<open>Reading a log that is built call by call.\<close>

lemma thrown_simps [simp]:
  "thrown [] = []"
  "thrown ((c, None) # tr) = thrown tr"
  "thrown ((c, Some e) # tr) = e # thrown tr"
  "thrown (tr @ tr') = thrown tr @ thrown tr'"
  by (simp_all add: thrown_def)

lemma detach_calls_simps [simp]:
  "detach_calls [] = []"
  "detach_calls ((ListPoliciesForTarget f t, r) # tr) = detach_calls tr"
  "detach_calls ((AttachPolicy p t, r) # tr) = detach_calls tr"
  "detach_calls ((DetachPolicy p t, r) # tr) = DetachPolicy p t # detach_calls tr"
  "detach_calls (tr @ tr') = detach_calls tr @ detach_calls tr'"
  by (simp_all add: detach_calls_def)

lemma applied_simps [simp]:
  "applied [] = []"
  "applied ((ListPoliciesForTarget f t, r) # tr) = applied tr"
  "applied ((c, Some e) # tr) = applied tr"
  "applied ((AttachPolicy p t, None) # tr) = AttachPolicy p t # applied tr"
  "applied ((DetachPolicy p t, None) # tr) = DetachPolicy p t # applied tr"
  "applied (tr @ tr') = applied tr @ applied tr'"
  by (simp_all add: applied_def)

lemma attach_calls_simps [simp]:
  "attach_calls [] = []"
  "attach_calls ((ListPoliciesForTarget f t, r) # tr) = attach_calls tr"
  "attach_calls ((AttachPolicy p t, r) # tr) = AttachPolicy p t # attach_calls tr"
  "attach_calls ((DetachPolicy p t, r) # tr) = attach_calls tr"
  "attach_calls (tr @ tr') = attach_calls tr @ attach_calls tr'"
  by (simp_all add: attach_calls_def)

lemma mutation_calls_simps [simp]:
  "mutation_calls [] = []"
  "mutation_calls ((ListPoliciesForTarget f t, r) # tr) = mutation_calls tr"
  "mutation_calls ((AttachPolicy p t, r) # tr) = AttachPolicy p t # mutation_calls tr"
  "mutation_calls ((DetachPolicy p t, r) # tr) = DetachPolicy p t # mutation_calls tr"
  "mutation_calls (tr @ tr') = mutation_calls tr @ mutation_calls tr'"
  by (simp_all add: mutation_calls_def)

lemma list_only_replicate [simp]:
  "attach_calls (replicate n (ListPoliciesForTarget f t, r)) = []"
  "detach_calls (replicate n (ListPoliciesForTarget f t, r)) = []"
  "mutation_calls (replicate n (ListPoliciesForTarget f t, r)) = []"
  "applied (replicate n (ListPoliciesForTarget f t, r)) = []"
  by (induction n) simp_all

lemma detach_calls_replicate [simp]:
  "detach_calls (replicate n (DetachPolicy p t, r)) = replicate n (DetachPolicy p t)"
  by (induction n) simp_all

text \<open>The loop of the Create/Update branch.\<close>

lemma policy_in_iff: "policy_in policyId ps \<longleftrightarrow> policyId \<in> set (map Id' ps)"
  by (induction ps) auto

lemma find_attached_absent:
  "complete l \<Longrightarrow> policyId \<notin> set (listed_ids l) \<Longrightarrow>
   find_attached c policyId l = (replicate (length (pages l)) (c, None), Inr False)"
  by (induction l) (auto simp: listed_ids_def page_ids_def policy_in_iff split: prod.splits)

lemma find_attached_first_match:
  "policyId \<in> set (listed_ids l) \<Longrightarrow>
   find_attached c policyId l = (replicate (Suc (first_match policyId l)) (c, None), Inr True)"
proof (induction l)
  case (Fail e)
  then show ?case by (simp add: listed_ids_def)
next
  case (Last pg)
  then show ?case by (simp add: listed_ids_def first_match_def policy_in_iff page_ids_def)
next
  case (More pg rest)
  show ?case
  proof (cases "policy_in policyId (policies_of pg)")
    case True
    then show ?thesis by (simp add: first_match_def policy_in_iff page_ids_def)
  next
    case False
    with More.prems have "policyId \<in> set (listed_ids rest)"
      by (simp add: listed_ids_def policy_in_iff page_ids_def)
    from More.IH [OF this] False show ?thesis
      by (simp add: first_match_def policy_in_iff page_ids_def)
  qed
qed

lemma after_fetch_replicate:
  "after_fetch n (replicate (Suc n) (ListPoliciesForTarget f t, r)) = []"
  by (induction n) simp_all

lemma find_attached_thrown:
  "thrown (fst (find_attached c policyId l)) =
     (case snd (find_attached c policyId l) of Inl e \<Rightarrow> [e] | Inr b \<Rightarrow> [])"
  by (induction l) (simp_all add: case_prod_beta)

lemma find_attached_nonempty: "fst (find_attached c policyId l) \<noteq> []"
  by (cases l) (simp_all add: case_prod_beta)

lemma find_attached_last:
  "snd (find_attached c policyId l) = Inl e \<Longrightarrow>
     snd (last (fst (find_attached c policyId l))) = Some e"
  by (induction l) (simp_all add: case_prod_beta find_attached_nonempty split: if_splits)

lemma find_attached_list_only:
  "mutation_calls (fst (find_attached (ListPoliciesForTarget f t) policyId l)) = [] \<and>
   applied (fst (find_attached (ListPoliciesForTarget f t) policyId l)) = []"
  by (induction l) (simp_all add: case_prod_beta)

text \<open>The loops of the Delete branch.\<close>

lemma detach_matching_thrown:
  "thrown (fst (detach_matching send d policyId k ps)) =
     (case snd (snd (detach_matching send d policyId k ps)) of None \<Rightarrow> [] | Some e \<Rightarrow> [e])"
  by (induction ps arbitrary: k) (auto simp: case_prod_beta split: option.splits)

lemma detach_matching_last:
  "snd (snd (detach_matching send d policyId k ps)) = Some e \<Longrightarrow>
     fst (detach_matching send d policyId k ps) \<noteq> [] \<and>
     snd (last (fst (detach_matching send d policyId k ps))) = Some e"
  by (induction ps arbitrary: k) (auto simp: case_prod_beta split: option.splits if_splits)

lemma detach_matching_count:
  "length (detach_calls (fst (detach_matching send (DetachPolicy p t) policyId k ps)))
     \<le> count_list (map Id' ps) policyId"
  by (induction ps arbitrary: k) (auto simp: case_prod_beta le_SucI split: option.splits)

lemma detach_matching_all_succeed:
  "\<forall>j. send j = None \<Longrightarrow>
   detach_matching send d policyId k ps =
     (replicate (count_list (map Id' ps) policyId) (d, None),
      k + count_list (map Id' ps) policyId, None)"
  by (induction ps arbitrary: k) auto

lemma detach_matching_none:
  "policyId \<notin> set (map Id' ps) \<Longrightarrow> detach_matching send d policyId k ps = ([], k, None)"
  by (induction ps) auto

lemma detach_matching_detach_only:
  "mutation_calls (fst (detach_matching send (DetachPolicy p t) policyId k ps))
     = detach_calls (fst (detach_matching send (DetachPolicy p t) policyId k ps))"
  by (induction ps arbitrary: k) (simp_all add: case_prod_beta split: option.splits)

lemma detach_listed_thrown:
  "thrown (fst (detach_listed send c d policyId k l)) =
     (case snd (detach_listed send c d policyId k l) of None \<Rightarrow> [] | Some e \<Rightarrow> [e])"
proof (induction l arbitrary: k)
  case (Fail e)
  show ?case by simp
next
  case (Last pg)
  show ?case using detach_matching_thrown [of send d policyId k "policies_of pg"]
    by (simp add: case_prod_beta)
next
  case (More pg rest)
  show ?case
    using detach_matching_thrown [of send d policyId k "policies_of pg"]
      More.IH [of "fst (snd (detach_matching send d policyId k (policies_of pg)))"]
    by (simp add: case_prod_beta split: option.splits)
qed

lemma detach_listed_nonempty: "fst (detach_listed send c d policyId k l) \<noteq> []"
  by (cases l) (simp_all add: case_prod_beta split: option.splits)

lemma detach_listed_last:
  "snd (detach_listed send c d policyId k l) = Some e \<Longrightarrow>
     snd (last (fst (detach_listed send c d policyId k l))) = Some e"
proof (induction l arbitrary: k)
  case (Fail e')
  then show ?case by simp
next
  case (Last pg)
  then show ?case using detach_matching_last [of send d policyId k "policies_of pg" e]
    by (simp add: case_prod_beta)
next
  case (More pg rest)
  show ?case
  proof (cases "snd (snd (detach_matching send d policyId k (policies_of pg)))")
    case None
    with More.prems have
      "snd (detach_listed send c d policyId
              (fst (snd (detach_matching send d policyId k (policies_of pg)))) rest) = Some e"
      by (simp add: case_prod_beta)
    from More.IH [OF this] None show ?thesis
      by (simp add: case_prod_beta detach_listed_nonempty)
  next
    case (Some e')
    with More.prems detach_matching_last [of send d policyId k "policies_of pg" e'] show ?thesis
      by (simp add: case_prod_beta)
  qed
qed

lemma detach_listed_count:
  "length (detach_calls (fst (detach_listed send (ListPoliciesForTarget f t) (DetachPolicy p t') policyId k l)))
     \<le> count_list (listed_ids l) policyId"
proof (induction l arbitrary: k)
  case (Fail e)
  show ?case by simp
next
  case (Last pg)
  show ?case using detach_matching_count [of send p t' policyId k "policies_of pg"]
    by (simp add: case_prod_beta listed_ids_def page_ids_def)
next
  case (More pg rest)
  show ?case
    using detach_matching_count [of send p t' policyId k "policies_of pg"]
      More.IH [of "fst (snd (detach_matching send (DetachPolicy p t') policyId k (policies_of pg)))"]
    by (simp add: case_prod_beta listed_ids_def page_ids_def split: option.splits)
qed

lemma detach_listed_all_succeed:
  assumes "\<forall>j. send j = None" and "complete l"
  shows "snd (detach_listed send (ListPoliciesForTarget f t) (DetachPolicy p t') policyId k l) = None \<and>
         detach_calls (fst (detach_listed send (ListPoliciesForTarget f t) (DetachPolicy p t') policyId k l))
           = replicate (count_list (listed_ids l) policyId) (DetachPolicy p t')"
  using assms(2)
proof (induction l arbitrary: k)
  case (Fail e)
  then show ?case by simp
next
  case (Last pg)
  show ?case
    by (simp add: detach_matching_all_succeed [OF assms(1)] listed_ids_def page_ids_def)
next
  case (More pg rest)
  then have "complete rest" by simp
  from More.IH [OF this] show ?case
    by (simp add: detach_matching_all_succeed [OF assms(1)] listed_ids_def page_ids_def replicate_add case_prod_beta)
qed

lemma detach_listed_none:
  "complete l \<Longrightarrow> policyId \<notin> set (listed_ids l) \<Longrightarrow>
   detach_listed send c d policyId k l = (replicate (length (pages l)) (c, None), None)"
  by (induction l) (simp_all add: listed_ids_def page_ids_def detach_matching_none)

lemma detach_listed_detach_only:
  "mutation_calls (fst (detach_listed send (ListPoliciesForTarget f t) (DetachPolicy p t') policyId k l))
     = detach_calls (fst (detach_listed send (ListPoliciesForTarget f t) (DetachPolicy p t') policyId k l))"
  by (induction l arbitrary: k) (simp_all add: case_prod_beta detach_matching_detach_only split: option.splits)

section \<open>Properties of the branches\<close>

lemma handler_not_Delete:
  "RequestType ev \<noteq> Delete \<Longrightarrow>
   handler cl ev = create_or_update cl (ResourceProperties ev ''policyId'')
     (ResourceProperties ev ''targetId'') (ResourceProperties ev ''type'')"
  by (cases "RequestType ev") (simp_all add: handler_def)

lemma handler_Delete:
  "RequestType ev = Delete \<Longrightarrow>
   handler cl ev = delete cl ev (ResourceProperties ev ''policyId'')
     (ResourceProperties ev ''targetId'') (ResourceProperties ev ''type'')"
  by (simp add: handler_def)

lemma create_unattached:
  assumes "complete (paginateListPoliciesForTarget cl)"
    and "policyId \<notin> set (listed_ids (paginateListPoliciesForTarget cl))"
  shows "create_or_update cl policyId targetId ty =
    (replicate (length (pages (paginateListPoliciesForTarget cl)))
        (ListPoliciesForTarget ty targetId, None)
       @ [(AttachPolicy policyId targetId, sendAttachPolicy cl)],
     case sendAttachPolicy cl of Some e \<Rightarrow> Inl e
     | None \<Rightarrow> Inr (attached_result policyId targetId))"
  by (simp add: create_or_update_def find_attached_absent [OF assms] split: option.splits)

lemma create_attached:
  assumes "policyId \<in> set (listed_ids (paginateListPoliciesForTarget cl))"
  shows "create_or_update cl policyId targetId ty =
    (replicate (Suc (first_match policyId (paginateListPoliciesForTarget cl)))
        (ListPoliciesForTarget ty targetId, None),
     Inr (attached_result policyId targetId))"
  by (simp add: create_or_update_def find_attached_first_match [OF assms])

lemma create_thrown:
  "thrown (fst (create_or_update cl policyId targetId ty)) =
     (case snd (create_or_update cl policyId targetId ty) of Inl e \<Rightarrow> [e] | Inr r \<Rightarrow> [])"
  using find_attached_thrown [of "ListPoliciesForTarget ty targetId" policyId "paginateListPoliciesForTarget cl"]
  by (simp add: create_or_update_def case_prod_beta split: sum.splits bool.splits option.splits)

lemma create_last:
  "snd (create_or_update cl policyId targetId ty) = Inl e \<Longrightarrow>
   snd (last (fst (create_or_update cl policyId targetId ty))) = Some e"
  using find_attached_last [of "ListPoliciesForTarget ty targetId" policyId "paginateListPoliciesForTarget cl" e]
  by (simp add: create_or_update_def case_prod_beta split: sum.splits bool.splits option.splits)

lemma create_failed_applied:
  "snd (create_or_update cl policyId targetId ty) = Inl e \<Longrightarrow>
   applied (fst (create_or_update cl policyId targetId ty)) = []"
  using find_attached_list_only [of ty targetId policyId "paginateListPoliciesForTarget cl"]
  by (simp add: create_or_update_def case_prod_beta split: sum.splits bool.splits option.splits)

lemma delete_thrown:
  "thrown (fst (delete cl ev policyId targetId ty)) =
     (case snd (delete cl ev policyId targetId ty) of Inl e \<Rightarrow> [e] | Inr r \<Rightarrow> [])"
  using detach_listed_thrown [of "sendDetachPolicy cl" "ListPoliciesForTarget ty targetId"
      "DetachPolicy policyId targetId" policyId 0 "paginateListPoliciesForTarget cl"]
  by (simp add: delete_def case_prod_beta split: option.splits)

lemma delete_last:
  "snd (delete cl ev policyId targetId ty) = Inl e \<Longrightarrow>
   snd (last (fst (delete cl ev policyId targetId ty))) = Some e"
  using detach_listed_last [of "sendDetachPolicy cl" "ListPoliciesForTarget ty targetId"
      "DetachPolicy policyId targetId" policyId 0 "paginateListPoliciesForTarget cl" e]
  by (simp add: delete_def case_prod_beta split: option.splits if_splits)

lemma handler_thrown:
  "thrown (fst (handler cl ev)) = (case snd (handler cl ev) of Inl e \<Rightarrow> [e] | Inr r \<Rightarrow> [])"
  by (cases "RequestType ev = Delete")
     (simp_all add: handler_Delete handler_not_Delete create_thrown delete_thrown)

lemma declared_PolicyProps_uuid: "declared_PolicyProps props ''uuid'' = None"
  by (simp add: declared_PolicyProps_def Let_def split: option.splits)

lemma spread_PolicyProps_uuid:
  "spread_PolicyProps props m ''uuid'' =
     (case other props ''uuid'' of None \<Rightarrow> m ''uuid'' | Some v \<Rightarrow> Some v)"
  by (simp add: spread_PolicyProps_def own_properties_def map_add_def declared_PolicyProps_uuid
      split: option.splits)

lemma Policy_uuid:
  "properties (Policy asset tok uuid props) ''uuid'' =
     (case other props ''uuid'' of None \<Rightarrow> Some (StringValue uuid) | Some v \<Rightarrow> Some v)"
  by (simp add: Policy_def spread_PolicyProps_uuid split: option.splits)

lemma MacieMembers_uuid:
  "properties (MacieMembers tok uuid props) ''uuid'' = Some (StringValue uuid)"
  by (simp add: MacieMembers_def)

section \<open>Properties of the handler and of the constructs\<close>

text \<open>
  C1. Two invocations in sequence, Create or Update, with the same resource properties.
  The first meets a listing that is fetched to its end without the policy, and its attach
  call succeeds; the second meets a listing that shows the policy. Over both invocations
  exactly one attach call is issued, and it is the only mutation: the second invocation
  issues none. Both return the physical id \<^verbatim>\<open>policyId_targetId\<close> with status
  \<^verbatim>\<open>SUCCESS\<close>.
\<close>

theorem handler_twice_attaches_once:
  assumes "RequestType ev1 \<noteq> Delete" and "RequestType ev2 \<noteq> Delete"
    and "ResourceProperties ev2 = ResourceProperties ev1"
    and "complete (paginateListPoliciesForTarget cl1)"
    and "ResourceProperties ev1 ''policyId''
           \<notin> set (listed_ids (paginateListPoliciesForTarget cl1))"
    and "sendAttachPolicy cl1 = None"
    and "ResourceProperties ev1 ''policyId''
           \<in> set (listed_ids (paginateListPoliciesForTarget cl2))"
  shows "attach_calls (fst (handler cl1 ev1) @ fst (handler cl2 ev2)) =
           [AttachPolicy (ResourceProperties ev1 ''policyId'') (ResourceProperties ev1 ''targetId'')] \<and>
         mutation_calls (fst (handler cl1 ev1) @ fst (handler cl2 ev2)) =
           [AttachPolicy (ResourceProperties ev1 ''policyId'') (ResourceProperties ev1 ''targetId'')] \<and>
         mutation_calls (fst (handler cl2 ev2)) = [] \<and>
         snd (handler cl1 ev1) =
           Inr \<lparr>PhysicalResourceId = Some (str (ResourceProperties ev1 ''policyId'') @ ''_'' @
                    str (ResourceProperties ev1 ''targetId'')), Status = ''SUCCESS''\<rparr> \<and>
         snd (handler cl2 ev2) = snd (handler cl1 ev1)"
  using assms(3,6)
  by (simp add: handler_not_Delete [OF assms(1)] handler_not_Delete [OF assms(2)]
      create_unattached [OF assms(4,5)] create_attached [OF assms(7)] attached_result_def)

theorem handler_twice_attaches_once_witness:
  "RequestType create_event \<noteq> Delete \<and> RequestType update_event \<noteq> Delete \<and>
   ResourceProperties update_event = ResourceProperties create_event \<and>
   complete (paginateListPoliciesForTarget unattached_client) \<and>
   ResourceProperties create_event ''policyId''
     \<notin> set (listed_ids (paginateListPoliciesForTarget unattached_client)) \<and>
   sendAttachPolicy unattached_client = None \<and>
   ResourceProperties create_event ''policyId''
     \<in> set (listed_ids (paginateListPoliciesForTarget attached_client)) \<and>
   attach_calls (fst (handler unattached_client create_event)
                   @ fst (handler attached_client update_event)) =
     [AttachPolicy (Some ''p-1234'') (Some ''ou-5678'')] \<and>
   snd (handler unattached_client create_event) =
     Inr \<lparr>PhysicalResourceId = Some ''p-1234_ou-5678'', Status = ''SUCCESS''\<rparr> \<and>
   snd (handler attached_client update_event) =
     Inr \<lparr>PhysicalResourceId = Some ''p-1234_ou-5678'', Status = ''SUCCESS''\<rparr>"
proof -
  have a: "listed_ids (paginateListPoliciesForTarget attached_client) =
      [Some ''p-FullAWSAccess'', Some ''p-1234'']"
    and u: "listed_ids (paginateListPoliciesForTarget unattached_client) =
      [Some ''p-FullAWSAccess'']"
    by (simp_all add: attached_client_def unattached_client_def listed_ids_def page_ids_def
        policies_of_def summary_def)
  have p: "ResourceProperties create_event ''policyId'' = Some ''p-1234''"
    "ResourceProperties create_event ''targetId'' = Some ''ou-5678''"
    by (simp_all add: create_event_def scp_properties_def)
  have h: "RequestType create_event \<noteq> Delete" "RequestType update_event \<noteq> Delete"
    "ResourceProperties update_event = ResourceProperties create_event"
    "complete (paginateListPoliciesForTarget unattached_client)"
    "ResourceProperties create_event ''policyId''
       \<notin> set (listed_ids (paginateListPoliciesForTarget unattached_client))"
    "sendAttachPolicy unattached_client = None"
    "ResourceProperties create_event ''policyId''
       \<in> set (listed_ids (paginateListPoliciesForTarget attached_client))"
    by (simp_all add: a u p) (simp_all add: create_event_def update_event_def unattached_client_def)
  from handler_twice_attaches_once [OF h] h p show ?thesis by simp
qed

text \<open>
  C2. A Delete event whose \<^verbatim>\<open>policyId\<close> is \<^verbatim>\<open>p-FullAWSAccess\<close> issues no call at all
  (neither a list call nor a detach call) and returns the physical resource id of the
  event, unchanged, with status \<^verbatim>\<open>SUCCESS\<close>.
\<close>

theorem delete_full_access_no_calls:
  assumes "RequestType ev = Delete"
    and "ResourceProperties ev ''policyId'' = Some ''p-FullAWSAccess''"
  shows "handler cl ev =
    ([], Inr \<lparr>PhysicalResourceId = event.PhysicalResourceId ev, Status = ''SUCCESS''\<rparr>)"
  using assms by (simp add: handler_def delete_def)

theorem delete_full_access_no_calls_witness:
  "RequestType delete_full_access_event = Delete \<and>
   ResourceProperties delete_full_access_event ''policyId'' = Some ''p-FullAWSAccess'' \<and>
   handler attached_client delete_full_access_event =
     ([], Inr \<lparr>PhysicalResourceId = Some ''p-FullAWSAccess_ou-5678'', Status = ''SUCCESS''\<rparr>)"
  using delete_full_access_no_calls [of delete_full_access_event attached_client]
  by (simp add: delete_full_access_event_def full_access_properties_def)

text \<open>
  C3. A Create event for policy \<^verbatim>\<open>p-1234\<close>, target \<^verbatim>\<open>ou-5678\<close> and type
  \<^verbatim>\<open>SERVICE_CONTROL_POLICY\<close>, when every page of the listing is fetched and none of them
  lists \<^verbatim>\<open>p-1234\<close> and the attach call succeeds: the handler issues exactly one attach
  call, for that policy and that target, no other mutation, and returns the physical id
  \<^verbatim>\<open>p-1234_ou-5678\<close> with status \<^verbatim>\<open>SUCCESS\<close>.
\<close>

theorem create_unattached_attaches_once:
  assumes "RequestType ev = Create"
    and "ResourceProperties ev ''policyId'' = Some ''p-1234''"
    and "ResourceProperties ev ''targetId'' = Some ''ou-5678''"
    and "ResourceProperties ev ''type'' = Some ''SERVICE_CONTROL_POLICY''"
    and "complete (paginateListPoliciesForTarget cl)"
    and "Some ''p-1234'' \<notin> set (listed_ids (paginateListPoliciesForTarget cl))"
    and "sendAttachPolicy cl = None"
  shows "attach_calls (fst (handler cl ev)) = [AttachPolicy (Some ''p-1234'') (Some ''ou-5678'')] \<and>
         mutation_calls (fst (handler cl ev)) = [AttachPolicy (Some ''p-1234'') (Some ''ou-5678'')] \<and>
         snd (handler cl ev) =
           Inr \<lparr>PhysicalResourceId = Some ''p-1234_ou-5678'', Status = ''SUCCESS''\<rparr>"
proof -
  have "RequestType ev \<noteq> Delete" using assms(1) by simp
  then show ?thesis
    using assms(2-4,7) create_unattached [OF assms(5,6)]
    by (simp add: handler_not_Delete attached_result_def)
qed

theorem create_unattached_attaches_once_witness:
  "RequestType create_event = Create \<and>
   ResourceProperties create_event ''policyId'' = Some ''p-1234'' \<and>
   ResourceProperties create_event ''targetId'' = Some ''ou-5678'' \<and>
   ResourceProperties create_event ''type'' = Some ''SERVICE_CONTROL_POLICY'' \<and>
   complete (paginateListPoliciesForTarget unattached_client) \<and>
   Some ''p-1234'' \<notin> set (listed_ids (paginateListPoliciesForTarget unattached_client)) \<and>
   sendAttachPolicy unattached_client = None \<and>
   attach_calls (fst (handler unattached_client create_event))
     = [AttachPolicy (Some ''p-1234'') (Some ''ou-5678'')] \<and>
   snd (handler unattached_client create_event) =
     Inr \<lparr>PhysicalResourceId = Some ''p-1234_ou-5678'', Status = ''SUCCESS''\<rparr>"
proof -
  have h: "RequestType create_event = Create"
    "ResourceProperties create_event ''policyId'' = Some ''p-1234''"
    "ResourceProperties create_event ''targetId'' = Some ''ou-5678''"
    "ResourceProperties create_event ''type'' = Some ''SERVICE_CONTROL_POLICY''"
    "complete (paginateListPoliciesForTarget unattached_client)"
    "Some ''p-1234'' \<notin> set (listed_ids (paginateListPoliciesForTarget unattached_client))"
    "sendAttachPolicy unattached_client = None"
    by (simp_all add: create_event_def scp_properties_def unattached_client_def listed_ids_def
        page_ids_def policies_of_def summary_def)
  from create_unattached_attaches_once [OF h] h show ?thesis by simp
qed

text \<open>
  C4 says that in both branches no mutation call is issued once a matching entry is found.
  The Delete branch does the opposite: a match is what makes it send a detach call, and
  the loop then goes on to the next entries and pages. Here the first page lists
  \<^verbatim>\<open>p-1234\<close>; after that match the log holds two detach calls, the one for the match
  itself and one more for the entry of the second page.
\<close>

theorem delete_match_issues_detach_counterexample:
  "Some ''p-1234'' \<in> set (listed_ids (paginateListPoliciesForTarget listed_twice_client)) \<and>
   fst (handler listed_twice_client delete_event) =
     [(ListPoliciesForTarget (Some ''SERVICE_CONTROL_POLICY'') (Some ''ou-5678''), None),
      (DetachPolicy (Some ''p-1234'') (Some ''ou-5678''), None),
      (ListPoliciesForTarget (Some ''SERVICE_CONTROL_POLICY'') (Some ''ou-5678''), None),
      (DetachPolicy (Some ''p-1234'') (Some ''ou-5678''), None)] \<and>
   mutation_calls (after_match (Some ''p-1234'') (paginateListPoliciesForTarget listed_twice_client)
      (fst (handler listed_twice_client delete_event))) =
     [DetachPolicy (Some ''p-1234'') (Some ''ou-5678''),
      DetachPolicy (Some ''p-1234'') (Some ''ou-5678'')]"
proof -
  have ids: "listed_ids (paginateListPoliciesForTarget listed_twice_client) =
      [Some ''p-1234'', Some ''p-FullAWSAccess'', Some ''p-1234'']"
    by (simp add: listed_twice_client_def listed_ids_def page_ids_def policies_of_def summary_def)
  have tr: "fst (handler listed_twice_client delete_event) =
     [(ListPoliciesForTarget (Some ''SERVICE_CONTROL_POLICY'') (Some ''ou-5678''), None),
      (DetachPolicy (Some ''p-1234'') (Some ''ou-5678''), None),
      (ListPoliciesForTarget (Some ''SERVICE_CONTROL_POLICY'') (Some ''ou-5678''), None),
      (DetachPolicy (Some ''p-1234'') (Some ''ou-5678''), None)]"
    by (simp add: handler_def Let_def delete_def delete_event_def scp_properties_def
        listed_twice_client_def policies_of_def summary_def)
  have pg: "page_ids \<lparr>Policies = Some [summary ''p-1234'']\<rparr> = [Some ''p-1234'']"
    by (simp add: page_ids_def policies_of_def summary_def)
  have fm: "first_match (Some ''p-1234'') (paginateListPoliciesForTarget listed_twice_client) = 0"
    by (simp add: first_match_def listed_twice_client_def pg)
  show ?thesis by (simp add: ids tr fm after_match_def)
qed

text \<open>
  C4, amended. In the Create/Update branch, once a listed entry matches the policy id no
  further call of any kind is issued: the log ends with the list call that fetched the
  matching page, it holds no mutation call, and the handler returns success. In the Delete
  branch a match does not short-circuit; the only mutation calls are detach calls, at most
  one for each listed entry that matches.
\<close>

theorem match_short_circuits_create_update:
  "(RequestType ev \<noteq> Delete \<longrightarrow>
      ResourceProperties ev ''policyId'' \<in> set (listed_ids (paginateListPoliciesForTarget cl)) \<longrightarrow>
      after_match (ResourceProperties ev ''policyId'') (paginateListPoliciesForTarget cl)
        (fst (handler cl ev)) = [] \<and>
      mutation_calls (fst (handler cl ev)) = [] \<and>
      snd (handler cl ev) =
        Inr \<lparr>PhysicalResourceId = Some (str (ResourceProperties ev ''policyId'') @ ''_'' @
                 str (ResourceProperties ev ''targetId'')), Status = ''SUCCESS''\<rparr>) \<and>
   (RequestType ev = Delete \<longrightarrow>
      mutation_calls (fst (handler cl ev)) = detach_calls (fst (handler cl ev)) \<and>
      length (detach_calls (fst (handler cl ev)))
        \<le> count_list (listed_ids (paginateListPoliciesForTarget cl))
             (ResourceProperties ev ''policyId''))"
proof (intro conjI impI)
  assume nd: "RequestType ev \<noteq> Delete"
    and m: "ResourceProperties ev ''policyId'' \<in> set (listed_ids (paginateListPoliciesForTarget cl))"
  note h = handler_not_Delete [OF nd] create_attached [OF m]
  have "fst (handler cl ev) =
      replicate (Suc (first_match (ResourceProperties ev ''policyId'')
                        (paginateListPoliciesForTarget cl)))
        (ListPoliciesForTarget (ResourceProperties ev ''type'')
           (ResourceProperties ev ''targetId''), None)"
    by (simp add: h)
  then show "after_match (ResourceProperties ev ''policyId'') (paginateListPoliciesForTarget cl)
        (fst (handler cl ev)) = []"
    by (simp only: after_match_def after_fetch_replicate)
  show "mutation_calls (fst (handler cl ev)) = []"
    by (simp add: h)
  show "snd (handler cl ev) =
        Inr \<lparr>PhysicalResourceId = Some (str (ResourceProperties ev ''policyId'') @ ''_'' @
                 str (ResourceProperties ev ''targetId'')), Status = ''SUCCESS''\<rparr>"
    by (simp add: h attached_result_def)
next
  assume d: "RequestType ev = Delete"
  show "mutation_calls (fst (handler cl ev)) = detach_calls (fst (handler cl ev))"
    by (simp add: handler_Delete [OF d] delete_def case_prod_beta detach_listed_detach_only
        split: option.splits)
  show "length (detach_calls (fst (handler cl ev)))
        \<le> count_list (listed_ids (paginateListPoliciesForTarget cl))
             (ResourceProperties ev ''policyId'')"
    using detach_listed_count [of "sendDetachPolicy cl" "ResourceProperties ev ''type''"
        "ResourceProperties ev ''targetId''" "ResourceProperties ev ''policyId''"
        "ResourceProperties ev ''targetId''" "ResourceProperties ev ''policyId''" 0
        "paginateListPoliciesForTarget cl"]
    by (simp add: handler_Delete [OF d] delete_def case_prod_beta split: option.splits)
qed

theorem match_short_circuits_create_update_witness:
  "RequestType update_event \<noteq> Delete \<and>
   ResourceProperties update_event ''policyId''
     \<in> set (listed_ids (paginateListPoliciesForTarget attached_client)) \<and>
   after_match (Some ''p-1234'') (paginateListPoliciesForTarget attached_client)
     (fst (handler attached_client update_event)) = [] \<and>
   mutation_calls (fst (handler attached_client update_event)) = [] \<and>
   snd (handler attached_client update_event) =
     Inr \<lparr>PhysicalResourceId = Some ''p-1234_ou-5678'', Status = ''SUCCESS''\<rparr> \<and>
   RequestType delete_event = Delete \<and>
   mutation_calls (fst (handler attached_client delete_event))
     = detach_calls (fst (handler attached_client delete_event)) \<and>
   length (detach_calls (fst (handler attached_client delete_event))) \<le> 1"
proof -
  have ids: "listed_ids (paginateListPoliciesForTarget attached_client) =
      [Some ''p-FullAWSAccess'', Some ''p-1234'']"
    by (simp add: attached_client_def listed_ids_def page_ids_def policies_of_def summary_def)
  have p: "ResourceProperties update_event ''policyId'' = Some ''p-1234''"
    "ResourceProperties update_event ''targetId'' = Some ''ou-5678''"
    "RequestType update_event \<noteq> Delete"
    "ResourceProperties delete_event ''policyId'' = Some ''p-1234''"
    "RequestType delete_event = Delete"
    by (simp_all add: update_event_def delete_event_def scp_properties_def)
  from match_short_circuits_create_update [of update_event attached_client]
    match_short_circuits_create_update [of delete_event attached_client]
  show ?thesis by (simp add: ids p)
qed

text \<open>
  C5 says that a failing invocation leaves no mutation behind. In the Delete branch the
  detach call for an entry of the first page has succeeded when the fetch of the second
  page throws: the invocation fails and the detach stays applied.
\<close>

theorem delete_failure_after_detach_counterexample:
  "fst (handler second_page_fails_client delete_event) =
     [(ListPoliciesForTarget (Some ''SERVICE_CONTROL_POLICY'') (Some ''ou-5678''), None),
      (DetachPolicy (Some ''p-1234'') (Some ''ou-5678''), None),
      (ListPoliciesForTarget (Some ''SERVICE_CONTROL_POLICY'') (Some ''ou-5678''),
         Some (ApiError ''TooManyRequestsException''))] \<and>
   snd (handler second_page_fails_client delete_event) = Inl (ApiError ''TooManyRequestsException'') \<and>
   applied (fst (handler second_page_fails_client delete_event)) =
     [DetachPolicy (Some ''p-1234'') (Some ''ou-5678'')]"
  by (simp add: handler_def Let_def delete_def delete_event_def scp_properties_def
      second_page_fails_client_def policies_of_def summary_def)

text \<open>
  C5, amended. If any call throws, the handler issues no further call and the error
  reaches the caller: the call that threw is the last of the log, it is the only one that
  threw, and the invocation's outcome is that error. In the Create/Update branch a failing
  invocation has applied no mutation. (In the Delete branch the detach calls that
  succeeded before the failure stay applied; nothing rolls them back.)
\<close>

theorem errors_propagate:
  assumes "e \<in> set (thrown (fst (handler cl ev)))"
  shows "snd (handler cl ev) = Inl e \<and>
         thrown (fst (handler cl ev)) = [e] \<and>
         snd (last (fst (handler cl ev))) = Some e \<and>
         (RequestType ev \<noteq> Delete \<longrightarrow> applied (fst (handler cl ev)) = [])"
proof -
  from assms have r: "snd (handler cl ev) = Inl e"
    by (cases "snd (handler cl ev)") (simp_all add: handler_thrown)
  then have t: "thrown (fst (handler cl ev)) = [e]"
    by (simp add: handler_thrown)
  have l: "snd (last (fst (handler cl ev))) = Some e"
    using r by (cases "RequestType ev = Delete")
      (simp_all add: handler_Delete handler_not_Delete create_last delete_last)
  have a: "RequestType ev \<noteq> Delete \<longrightarrow> applied (fst (handler cl ev)) = []"
  proof
    assume nd: "RequestType ev \<noteq> Delete"
    with r have "snd (create_or_update cl (ResourceProperties ev ''policyId'')
        (ResourceProperties ev ''targetId'') (ResourceProperties ev ''type'')) = Inl e"
      by (simp add: handler_not_Delete)
    from create_failed_applied [OF this] show "applied (fst (handler cl ev)) = []"
      by (simp add: handler_not_Delete [OF nd])
  qed
  from r t l a show ?thesis by simp
qed

theorem errors_propagate_witness:
  "ApiError ''PolicyNotFoundException'' \<in> set (thrown (fst (handler attach_fails_client create_event))) \<and>
   snd (handler attach_fails_client create_event) = Inl (ApiError ''PolicyNotFoundException'') \<and>
   RequestType create_event \<noteq> Delete \<and>
   applied (fst (handler attach_fails_client create_event)) = []"
proof -
  have h: "ApiError ''PolicyNotFoundException''
      \<in> set (thrown (fst (handler attach_fails_client create_event)))"
    by (simp add: handler_def Let_def create_or_update_def create_event_def scp_properties_def
        attach_fails_client_def policies_of_def summary_def)
  have c: "RequestType create_event \<noteq> Delete" by (simp add: create_event_def)
  from errors_propagate [OF h] h c show ?thesis by simp
qed

text \<open>
  C6. A Delete event for a policy other than \<^verbatim>\<open>p-FullAWSAccess\<close>, when every page of the
  listing is fetched and none of them lists the policy: the handler issues no detach call
  (no mutation at all) and returns the event's physical resource id with status
  \<^verbatim>\<open>SUCCESS\<close>.
\<close>

theorem delete_unlisted_no_detach:
  assumes "RequestType ev = Delete"
    and "ResourceProperties ev ''policyId'' \<noteq> Some ''p-FullAWSAccess''"
    and "complete (paginateListPoliciesForTarget cl)"
    and "ResourceProperties ev ''policyId'' \<notin> set (listed_ids (paginateListPoliciesForTarget cl))"
  shows "detach_calls (fst (handler cl ev)) = [] \<and>
         mutation_calls (fst (handler cl ev)) = [] \<and>
         snd (handler cl ev) =
           Inr \<lparr>PhysicalResourceId = event.PhysicalResourceId ev, Status = ''SUCCESS''\<rparr>"
  using assms(1,2) by (simp add: handler_Delete delete_def detach_listed_none [OF assms(3,4)])

theorem delete_unlisted_no_detach_witness:
  "RequestType delete_event = Delete \<and>
   ResourceProperties delete_event ''policyId'' \<noteq> Some ''p-FullAWSAccess'' \<and>
   complete (paginateListPoliciesForTarget unattached_client) \<and>
   ResourceProperties delete_event ''policyId''
     \<notin> set (listed_ids (paginateListPoliciesForTarget unattached_client)) \<and>
   detach_calls (fst (handler unattached_client delete_event)) = [] \<and>
   snd (handler unattached_client delete_event) =
     Inr \<lparr>PhysicalResourceId = Some ''p-1234_ou-5678'', Status = ''SUCCESS''\<rparr>"
proof -
  have h: "RequestType delete_event = Delete"
    "ResourceProperties delete_event ''policyId'' \<noteq> Some ''p-FullAWSAccess''"
    "complete (paginateListPoliciesForTarget unattached_client)"
    "ResourceProperties delete_event ''policyId''
       \<notin> set (listed_ids (paginateListPoliciesForTarget unattached_client))"
    by (simp_all add: delete_event_def scp_properties_def unattached_client_def listed_ids_def
        page_ids_def policies_of_def summary_def)
  from delete_unlisted_no_detach [OF h] h show ?thesis by (simp add: delete_event_def)
qed

text \<open>
  C7. An Update event and a Create event with the same resource properties make the
  handler behave alike: the same calls with the same outcomes, and the same result.
\<close>

theorem update_same_as_create:
  assumes "RequestType ev = Create" and "RequestType ev' = Update"
    and "ResourceProperties ev' = ResourceProperties ev"
  shows "handler cl ev' = handler cl ev"
  using assms by (simp add: handler_def)

theorem update_same_as_create_witness:
  "RequestType create_event = Create \<and> RequestType update_event = Update \<and>
   ResourceProperties update_event = ResourceProperties create_event \<and>
   handler unattached_client update_event = handler unattached_client create_event"
  using update_same_as_create [of create_event update_event unattached_client]
  by (simp add: create_event_def update_event_def)

text \<open>
  C8. Each construct is to register its custom resource with properties that hold, under
  the key \<^verbatim>\<open>uuid\<close>, the token its own call of \<^verbatim>\<open>uuidv4()\<close> returned, so that two
  constructions register different properties also when their props are equal.
  \<^verbatim>\<open>MacieMembers\<close> does (\<open>MacieMembers_uuid\<close>). \<^verbatim>\<open>Policy\<close> writes \<^verbatim>\<open>...props\<close> after
  \<^verbatim>\<open>uuid: uuidv4()\<close>, so an own property \<^verbatim>\<open>uuid\<close> of the props replaces the token: the
  registered \<^verbatim>\<open>uuid\<close> is the caller's value, and two constructions with different tokens
  register the same properties.
\<close>

theorem Policy_spread_overwrites_uuid:
  "properties (Policy example_asset ''arn:provider'' ''1b9d6bcd'' pinned_PolicyProps) ''uuid''
     = Some (StringValue ''pinned-by-caller'') \<and>
   properties (Policy example_asset ''arn:provider'' ''1b9d6bcd'' pinned_PolicyProps)
     = properties (Policy example_asset ''arn:provider'' ''9c5b94b1'' pinned_PolicyProps) \<and>
   properties (MacieMembers ''arn:provider'' ''1b9d6bcd'' example_MacieProps) ''uuid''
     = Some (StringValue ''1b9d6bcd'')"
proof -
  have u: "properties (Policy example_asset ''arn:provider'' ''1b9d6bcd'' pinned_PolicyProps) ''uuid''
     = Some (StringValue ''pinned-by-caller'')"
    by (simp add: Policy_uuid pinned_PolicyProps_def)
  have o: "own_properties pinned_PolicyProps ''uuid'' = Some (StringValue ''pinned-by-caller'')"
    by (simp add: own_properties_def map_add_def declared_PolicyProps_uuid pinned_PolicyProps_def)
  have e: "properties (Policy example_asset ''arn:provider'' ''1b9d6bcd'' pinned_PolicyProps)
     = properties (Policy example_asset ''arn:provider'' ''9c5b94b1'' pinned_PolicyProps)"
  proof (rule ext)
    fix k :: string
    show "properties (Policy example_asset ''arn:provider'' ''1b9d6bcd'' pinned_PolicyProps) k
       = properties (Policy example_asset ''arn:provider'' ''9c5b94b1'' pinned_PolicyProps) k"
    proof (cases "k = ''uuid''")
      case True
      with o show ?thesis by (simp add: Policy_def spread_PolicyProps_def map_add_def)
    next
      case False
      then show ?thesis
        by (simp add: Policy_def spread_PolicyProps_def map_add_def split: option.splits)
    qed
  qed
  from u e show ?thesis by (simp add: MacieMembers_uuid)
qed

text \<open>
  C9. A Delete event for a policy other than \<^verbatim>\<open>p-FullAWSAccess\<close>, when no call throws:
  the handler goes through every entry of every page and issues one detach call for each
  entry whose id is the policy's. The number of detach calls is the number of occurrences
  of the id over all pages; it is not capped at one, and the loop does not stop at the
  first match (the instance below has two occurrences on two pages and two detach calls).
\<close>

theorem delete_detaches_every_occurrence:
  assumes "RequestType ev = Delete"
    and "ResourceProperties ev ''policyId'' \<noteq> Some ''p-FullAWSAccess''"
    and "complete (paginateListPoliciesForTarget cl)"
    and "\<forall>k. sendDetachPolicy cl k = None"
  shows "length (detach_calls (fst (handler cl ev))) =
           count_list (listed_ids (paginateListPoliciesForTarget cl))
             (ResourceProperties ev ''policyId'') \<and>
         detach_calls (fst (handler cl ev)) =
           replicate (count_list (listed_ids (paginateListPoliciesForTarget cl))
                        (ResourceProperties ev ''policyId''))
             (DetachPolicy (ResourceProperties ev ''policyId'') (ResourceProperties ev ''targetId'')) \<and>
         snd (handler cl ev) =
           Inr \<lparr>PhysicalResourceId = event.PhysicalResourceId ev, Status = ''SUCCESS''\<rparr>"
  using assms(1,2) detach_listed_all_succeed [OF assms(4,3), of "ResourceProperties ev ''type''"
      "ResourceProperties ev ''targetId''" "ResourceProperties ev ''policyId''"
      "ResourceProperties ev ''targetId''" "ResourceProperties ev ''policyId''" 0]
  by (simp add: handler_Delete delete_def case_prod_beta)

theorem delete_detaches_every_occurrence_witness:
  "RequestType delete_event = Delete \<and>
   ResourceProperties delete_event ''policyId'' \<noteq> Some ''p-FullAWSAccess'' \<and>
   complete (paginateListPoliciesForTarget listed_twice_client) \<and>
   sendDetachPolicy listed_twice_client = (\<lambda>k. None) \<and>
   count_list (listed_ids (paginateListPoliciesForTarget listed_twice_client)) (Some ''p-1234'') = 2 \<and>
   detach_calls (fst (handler listed_twice_client delete_event)) =
     [DetachPolicy (Some ''p-1234'') (Some ''ou-5678''),
      DetachPolicy (Some ''p-1234'') (Some ''ou-5678'')] \<and>
   snd (handler listed_twice_client delete_event) =
     Inr \<lparr>PhysicalResourceId = Some ''p-1234_ou-5678'', Status = ''SUCCESS''\<rparr>"
proof -
  have h: "RequestType delete_event = Delete"
    "ResourceProperties delete_event ''policyId'' \<noteq> Some ''p-FullAWSAccess''"
    "complete (paginateListPoliciesForTarget listed_twice_client)"
    "\<forall>k. sendDetachPolicy listed_twice_client k = None"
    by (simp_all add: delete_event_def scp_properties_def listed_twice_client_def)
  have c: "count_list (listed_ids (paginateListPoliciesForTarget listed_twice_client))
      (Some ''p-1234'') = 2"
    by (simp add: listed_twice_client_def listed_ids_def page_ids_def policies_of_def summary_def)
  have p: "ResourceProperties delete_event ''policyId'' = Some ''p-1234''"
    "ResourceProperties delete_event ''targetId'' = Some ''ou-5678''"
    "event.PhysicalResourceId delete_event = Some ''p-1234_ou-5678''"
    by (simp_all add: delete_event_def scp_properties_def)
  have s: "sendDetachPolicy listed_twice_client = (\<lambda>k. None)"
    by (simp add: listed_twice_client_def)
  from delete_detaches_every_occurrence [OF h] h(1-3) c p s show ?thesis
    by (simp add: numeral_2_eq_2)
qed

text \<open>
  C10. Whatever the handler returns has status \<^verbatim>\<open>SUCCESS\<close>: a failure is an error that
  propagates (\<open>Inl\<close>), never a returned status.
\<close>

theorem handler_status_success:
  assumes "snd (handler cl ev) = Inr r"
  shows "Status r = ''SUCCESS''"
proof (cases "RequestType ev = Delete")
  case True
  with assms show ?thesis
    by (auto simp: handler_Delete delete_def case_prod_beta split: if_splits option.splits)
next
  case False
  with assms show ?thesis
    by (auto simp: handler_not_Delete create_or_update_def attached_result_def case_prod_beta
             split: sum.splits bool.splits option.splits)
qed

theorem handler_status_success_witness:
  "snd (handler unattached_client create_event) =
     Inr \<lparr>PhysicalResourceId = Some ''p-1234_ou-5678'', Status = ''SUCCESS''\<rparr> \<and>
   Status \<lparr>PhysicalResourceId = Some ''p-1234_ou-5678'', Status = ''SUCCESS''\<rparr> = ''SUCCESS''"
proof -
  have h: "snd (handler unattached_client create_event) =
     Inr \<lparr>PhysicalResourceId = Some ''p-1234_ou-5678'', Status = ''SUCCESS''\<rparr>"
    by (simp add: handler_def Let_def create_or_update_def attached_result_def create_event_def
        scp_properties_def unattached_client_def policies_of_def summary_def)
  from handler_status_success [OF h] h show ?thesis by simp
qed

end
